theory Spec2Isabelle
  imports Complex_Main
begin

section \<open>Python values: floats, exceptions\<close>

text \<open>
  A Python float is a finite number, one of the two infinities, or not-a-number. A finite
  float is modelled by the real number it denotes; the sign of zero is not modelled.
  Every arithmetic operation takes the rounding \<open>rd\<close> that maps the exact result to the
  float that is stored: \<open>exact\<close> keeps the real number, \<open>binary64\<close> rounds to the
  nearest IEEE double (ties to even, overflow to infinity, gradual underflow), which is what
  CPython and numpy compute with.
\<close>

datatype pyfloat = Fin real | PInf | NInf | NaN

type_synonym rounding = "real \<Rightarrow> pyfloat"

definition exact :: rounding where
  "exact x = Fin x"

fun bit_length :: "nat \<Rightarrow> nat" where
  "bit_length n = (if n = 0 then 0 else Suc (bit_length (n div 2)))"

declare bit_length.simps [simp del]

definition pow2 :: "int \<Rightarrow> real" where
  "pow2 e = (if 0 \<le> e then 2 ^ nat e else 1 / 2 ^ nat (- e))"

text \<open>For \<open>x > 0\<close>: the integer \<open>k\<close> with \<open>2^k \<le> x < 2^(k+1)\<close>.\<close>

definition floor_log2 :: "real \<Rightarrow> int" where
  "floor_log2 x =
     (if 1 \<le> x then int (bit_length (nat \<lfloor>x\<rfloor>)) - 1
      else let b = int (bit_length (nat \<lfloor>1 / x\<rfloor>))
           in if x = pow2 (1 - b) then 1 - b else - b)"

definition round_half_even :: "real \<Rightarrow> int" where
  "round_half_even x =
     (let f = \<lfloor>x\<rfloor>; d = x - of_int f
      in if d < 1 / 2 then f else if 1 / 2 < d then f + 1
         else if even f then f else f + 1)"

definition binary64 :: rounding where
  "binary64 x =
     (if x = 0 then Fin 0
      else let a = \<bar>x\<bar>;
               e = max (floor_log2 a - 52) (- 1074);
               y = of_int (round_half_even (a / pow2 e)) * pow2 e
           in if pow2 1024 \<le> y then (if 0 < x then PInf else NInf)
              else Fin (if 0 < x then y else - y))"

fun fneg :: "pyfloat \<Rightarrow> pyfloat" where
  "fneg (Fin x) = Fin (- x)"
| "fneg PInf = NInf"
| "fneg NInf = PInf"
| "fneg NaN = NaN"

fun fadd :: "rounding \<Rightarrow> pyfloat \<Rightarrow> pyfloat \<Rightarrow> pyfloat" where
  "fadd rd (Fin x) (Fin y) = rd (x + y)"
| "fadd rd NaN b = NaN"
| "fadd rd a NaN = NaN"
| "fadd rd PInf NInf = NaN"
| "fadd rd NInf PInf = NaN"
| "fadd rd PInf b = PInf"
| "fadd rd NInf b = NInf"
| "fadd rd (Fin x) b = b"

definition fsub :: "rounding \<Rightarrow> pyfloat \<Rightarrow> pyfloat \<Rightarrow> pyfloat" where
  "fsub rd a b = fadd rd a (fneg b)"

definition inf_of_sign :: "real \<Rightarrow> pyfloat" where
  "inf_of_sign s = (if s = 0 then NaN else if 0 < s then PInf else NInf)"

fun fsign :: "pyfloat \<Rightarrow> real" where
  "fsign (Fin x) = sgn x"
| "fsign PInf = 1"
| "fsign NInf = - 1"
| "fsign NaN = 0"

fun fmul :: "rounding \<Rightarrow> pyfloat \<Rightarrow> pyfloat \<Rightarrow> pyfloat" where
  "fmul rd (Fin x) (Fin y) = rd (x * y)"
| "fmul rd NaN b = NaN"
| "fmul rd a NaN = NaN"
| "fmul rd a b = inf_of_sign (fsign a * fsign b)"

text \<open>
  Division as numpy does it on \<open>float64\<close>: a zero divisor raises nothing, the quotient is
  an infinity, or not-a-number for \<open>0 / 0\<close>.
\<close>

fun fdiv :: "rounding \<Rightarrow> pyfloat \<Rightarrow> pyfloat \<Rightarrow> pyfloat" where
  "fdiv rd (Fin x) (Fin y) = (if y = 0 then inf_of_sign x else rd (x / y))"
| "fdiv rd NaN b = NaN"
| "fdiv rd a NaN = NaN"
| "fdiv rd (Fin x) b = Fin 0"
| "fdiv rd a (Fin y) = (if y = 0 then a else inf_of_sign (fsign a * sgn y))"
| "fdiv rd a b = NaN"

text \<open>
  \<open>x ** n\<close> for a float \<open>x\<close> and a positive integer \<open>n\<close>, taken as correctly
  rounded. (The C library's \<open>pow\<close> is within one unit in the last place, so it is exact
  wherever the power is itself a float.)
\<close>

fun fpow :: "rounding \<Rightarrow> pyfloat \<Rightarrow> nat \<Rightarrow> pyfloat" where
  "fpow rd (Fin x) n = rd (x ^ n)"
| "fpow rd PInf n = PInf"
| "fpow rd NInf n = (if even n then PInf else NInf)"
| "fpow rd NaN n = NaN"

text \<open>Comparisons: every comparison with not-a-number is false.\<close>

fun flt :: "pyfloat \<Rightarrow> pyfloat \<Rightarrow> bool" where
  "flt (Fin x) (Fin y) = (x < y)"
| "flt NaN b = False"
| "flt a NaN = False"
| "flt PInf b = False"
| "flt a PInf = True"
| "flt NInf b = (case b of NInf \<Rightarrow> False | _ \<Rightarrow> True)"
| "flt a NInf = False"

definition fgt :: "pyfloat \<Rightarrow> pyfloat \<Rightarrow> bool" where
  "fgt a b = flt b a"

definition fge :: "pyfloat \<Rightarrow> pyfloat \<Rightarrow> bool" where
  "fge a b = (flt b a \<or> (a = b \<and> (case a of NaN \<Rightarrow> False | _ \<Rightarrow> True)))"

datatype pyexc = ValueError | TypeError | KeyError | NoSuchElementException | StaleElementReferenceException

datatype pyval = PyNone | PyStr string | PyInt int | PyFloat pyfloat | PyBool bool

section \<open>Strings\<close>

text \<open>
  Strings are modelled as lists of 8-bit characters; the scraped cells are taken to be ASCII.
  \<open>str_remove c s\<close> is \<open>s.replace(c, '')\<close> for a one-character \<open>c\<close>, \<open>strip\<close> is
  \<open>s.strip()\<close>, \<open>str_contains c s\<close> is \<open>c in s\<close>.
\<close>

definition is_space :: "char \<Rightarrow> bool" where
  "is_space c = (c \<in> set [CHR 0x09, CHR 0x0A, CHR 0x0B, CHR 0x0C, CHR 0x0D,
                           CHR 0x1C, CHR 0x1D, CHR 0x1E, CHR 0x1F, CHR 0x20])"

definition strip :: "string \<Rightarrow> string" where
  "strip s = rev (dropWhile is_space (rev (dropWhile is_space s)))"

definition str_remove :: "char \<Rightarrow> string \<Rightarrow> string" where
  "str_remove c s = filter (\<lambda>d. d \<noteq> c) s"

definition str_contains :: "char \<Rightarrow> string \<Rightarrow> bool" where
  "str_contains c s = (c \<in> set s)"

definition to_lower :: "char \<Rightarrow> char" where
  "to_lower c = (case map_of (zip ''ABCDEFGHIJKLMNOPQRSTUVWXYZ'' ''abcdefghijklmnopqrstuvwxyz'') c of
                   None \<Rightarrow> c | Some d \<Rightarrow> d)"

subsection \<open>The builtin \<open>float(str)\<close>\<close>

text \<open>
  The grammar of the Python language reference: after stripping white space, an optional
  sign, then \<open>inf\<close>, \<open>infinity\<close> or \<open>nan\<close> in any case, or a decimal number
  \<open>[digitpart] "." digitpart | digitpart ["."]\<close> with an optional exponent, where a
  digitpart is \<open>digit (["_"] digit)*\<close>. Anything else raises \<open>ValueError\<close>. The decimal
  value is rounded once.
\<close>

definition is_digit :: "char \<Rightarrow> bool" where
  "is_digit c = (c \<in> set ''0123456789'')"

definition digit_value :: "char \<Rightarrow> nat" where
  "digit_value c = length (takeWhile (\<lambda>d. d \<noteq> c) ''0123456789'')"

fun digitpart_ok :: "string \<Rightarrow> bool" where
  "digitpart_ok [] = False"
| "digitpart_ok [c] = is_digit c"
| "digitpart_ok (c # d # cs) =
     (is_digit c \<and> (if d = CHR ''_'' then digitpart_ok cs else digitpart_ok (d # cs)))"

definition digits_value :: "string \<Rightarrow> nat" where
  "digits_value s = foldl (\<lambda>a c. 10 * a + digit_value c) 0 (filter is_digit s)"

definition number_ok :: "string \<Rightarrow> string \<Rightarrow> bool" where
  "number_ok ip fr =
     (case fr of [] \<Rightarrow> digitpart_ok ip
      | dot # fp \<Rightarrow> (ip = [] \<or> digitpart_ok ip) \<and> (fp = [] \<or> digitpart_ok fp)
                    \<and> (ip @ fp) \<noteq> [])"

definition parse_exponent :: "string \<Rightarrow> int option" where
  "parse_exponent ex =
     (case ex of [] \<Rightarrow> Some 0
      | e # rest \<Rightarrow>
          (let neg = (case rest of [] \<Rightarrow> False | c # cs \<Rightarrow> c = CHR ''-'');
               ds = (case rest of [] \<Rightarrow> [] | c # cs \<Rightarrow> if c \<in> set ''+-'' then cs else rest)
           in if digitpart_ok ds
              then Some (if neg then - int (digits_value ds) else int (digits_value ds))
              else None))"

definition parse_decimal :: "string \<Rightarrow> real option" where
  "parse_decimal s =
     (let mant = takeWhile (\<lambda>c. c \<notin> set ''eE'') s;
          ex = dropWhile (\<lambda>c. c \<notin> set ''eE'') s;
          ip = takeWhile (\<lambda>c. c \<noteq> CHR ''.'') mant;
          fr = dropWhile (\<lambda>c. c \<noteq> CHR ''.'') mant
      in if number_ok ip fr
         then (case parse_exponent ex of
                 None \<Rightarrow> None
               | Some k \<Rightarrow>
                   (let m = real (digits_value (ip @ fr)) / 10 ^ length (filter is_digit fr)
                    in Some (if 0 \<le> k then m * 10 ^ nat k else m / 10 ^ nat (- k))))
         else None)"

definition py_float :: "rounding \<Rightarrow> string \<Rightarrow> pyexc + pyfloat" where
  "py_float rd text =
     (let s = strip text;
          neg = (case s of [] \<Rightarrow> False | c # cs \<Rightarrow> c = CHR ''-'');
          body = (case s of [] \<Rightarrow> [] | c # cs \<Rightarrow> if c \<in> set ''+-'' then cs else s);
          low = map to_lower body
      in if low = ''inf'' \<or> low = ''infinity'' then Inr (if neg then NInf else PInf)
         else if low = ''nan'' then Inr NaN
         else (case parse_decimal body of
                 None \<Rightarrow> Inl ValueError
               | Some v \<Rightarrow> Inr (rd (if neg then - v else v))))"

section \<open>Numeric Normalizer\<close>

text \<open>
  \<open>clean_numeric_text\<close>, lines 32 to 53. \<open>cleaned\<close> is line 37, \<open>magnitude\<close> the
  \<open>if\<close>/\<open>elif\<close> chain of lines 39 to 48, which yields the multiplier and the text
  without the letter. The \<open>try\<close> catches \<open>ValueError\<close> and \<open>TypeError\<close>; any other
  exception would reach the caller, which the result type keeps visible.
\<close>

definition cleaned :: "string \<Rightarrow> string" where
  "cleaned text = strip (str_remove CHR ''%'' (str_remove CHR '','' (str_remove CHR ''$'' text)))"

definition magnitude :: "string \<Rightarrow> real \<times> string" where
  "magnitude text =
     (if str_contains CHR ''T'' text then (1000000000000, str_remove CHR ''T'' text)
      else if str_contains CHR ''B'' text then (1000000000, str_remove CHR ''B'' text)
      else if str_contains CHR ''M'' text then (1000000, str_remove CHR ''M'' text)
      else (1, text))"

definition clean_numeric_text :: "rounding \<Rightarrow> pyval \<Rightarrow> pyexc + pyfloat option" where
  "clean_numeric_text rd v =
     (case v of
        PyStr text0 \<Rightarrow>
          (case magnitude (cleaned text0) of
             (multiplier, text) \<Rightarrow>
               (case py_float rd text of
                  Inr x \<Rightarrow> Inr (Some (fmul rd x (Fin multiplier)))
                | Inl e \<Rightarrow> if e = ValueError \<or> e = TypeError then Inr None else Inl e))
      | _ \<Rightarrow> Inr None)"


section \<open>Record Extractor and Snapshot Builder\<close>


record coin =
  Name :: string
  PriceUSD :: "pyfloat option"
  Change24h_Percent :: "pyfloat option"
  MarketCapUSD :: "pyfloat option"









section \<open>Data frames and series\<close>

text \<open>
  A frame is the list of its rows. A numeric column is a \<open>float64\<close> series in which a
  missing value (\<open>None\<close>) is not-a-number. The reductions skip not-a-number, as pandas does
  by default; the sum is taken from left to right (numpy adds in another order, which can
  change the result only through rounding).
\<close>

type_synonym frame = "coin list"

definition float64 :: "pyfloat option \<Rightarrow> pyfloat" where
  "float64 v = (case v of None \<Rightarrow> NaN | Some x \<Rightarrow> x)"

definition column :: "(coin \<Rightarrow> pyfloat option) \<Rightarrow> frame \<Rightarrow> pyfloat list" where
  "column f df = map (\<lambda>r. float64 (f r)) df"

definition notna :: "pyfloat \<Rightarrow> bool" where
  "notna x = (case x of NaN \<Rightarrow> False | _ \<Rightarrow> True)"

definition dropna :: "frame \<Rightarrow> frame" where
  "dropna df = filter (\<lambda>r. notna (float64 (Change24h_Percent r)) \<and> notna (float64 (PriceUSD r))
                           \<and> notna (float64 (MarketCapUSD r))) df"

definition series_sum :: "rounding \<Rightarrow> pyfloat list \<Rightarrow> pyfloat" where
  "series_sum rd xs = foldl (fadd rd) (Fin 0) (filter notna xs)"


fun arg_best :: "(pyfloat \<Rightarrow> pyfloat \<Rightarrow> bool) \<Rightarrow> pyfloat list \<Rightarrow> nat \<Rightarrow> (nat \<times> pyfloat) option
                 \<Rightarrow> (nat \<times> pyfloat) option" where
  "arg_best better [] i best = best"
| "arg_best better (x # xs) i best =
     arg_best better xs (Suc i)
       (if notna x
        then (case best of None \<Rightarrow> Some (i, x)
              | Some (j, y) \<Rightarrow> if better x y then Some (i, x) else best)
        else best)"



definition series_max :: "pyfloat list \<Rightarrow> pyfloat" where
  "series_max xs = (case arg_best fgt xs 0 None of None \<Rightarrow> NaN | Some (i, x) \<Rightarrow> x)"

definition series_min :: "pyfloat list \<Rightarrow> pyfloat" where
  "series_min xs = (case arg_best flt xs 0 None of None \<Rightarrow> NaN | Some (i, x) \<Rightarrow> x)"

section \<open>Market Analyzer\<close>

datatype sentiment = Bullish | Bearish



definition sentiment_of :: "pyfloat \<Rightarrow> sentiment" where
  "sentiment_of x = (if fgt x (Fin 0) then Bullish else Bearish)"


text \<open>
  \<open>display_highly_advanced_analysis\<close>: the market-cap weighted sentiment (lines 164 to 167)
  and the cap tiers (lines 169 to 176). The quotient of two \<open>float64\<close> sums raises nothing.
\<close>

definition weighted_avg_change :: "rounding \<Rightarrow> frame \<Rightarrow> pyfloat" where
  "weighted_avg_change rd df =
     fdiv rd (series_sum rd (map2 (fmul rd) (column Change24h_Percent df) (column MarketCapUSD df)))
             (series_sum rd (column MarketCapUSD df))"

definition weighted_sentiment :: "rounding \<Rightarrow> frame \<Rightarrow> sentiment" where
  "weighted_sentiment rd df = sentiment_of (weighted_avg_change rd df)"

definition large_cap :: "frame \<Rightarrow> nat" where
  "large_cap df = length (filter (\<lambda>r. fge (float64 (MarketCapUSD r)) (Fin 10000000000)) df)"

definition mid_cap :: "frame \<Rightarrow> nat" where
  "mid_cap df = length (filter (\<lambda>r. fge (float64 (MarketCapUSD r)) (Fin 1000000000)
                                     \<and> flt (float64 (MarketCapUSD r)) (Fin 10000000000)) df)"

definition small_cap :: "frame \<Rightarrow> nat" where
  "small_cap df = length (filter (\<lambda>r. flt (float64 (MarketCapUSD r)) (Fin 1000000000)) df)"

section \<open>Scorer and projection\<close>

text \<open>\<open>display_recommendation_assistant\<close>: the three columns of lines 211 to 213.\<close>

definition min_max_norm :: "rounding \<Rightarrow> pyfloat list \<Rightarrow> pyfloat list" where
  "min_max_norm rd xs =
     map (\<lambda>v. fdiv rd (fsub rd v (series_min xs)) (fsub rd (series_max xs) (series_min xs))) xs"

definition mc_norm :: "rounding \<Rightarrow> frame \<Rightarrow> pyfloat list" where
  "mc_norm rd df = min_max_norm rd (column MarketCapUSD df)"

definition ch_norm :: "rounding \<Rightarrow> frame \<Rightarrow> pyfloat list" where
  "ch_norm rd df = min_max_norm rd (column Change24h_Percent df)"

definition score :: "rounding \<Rightarrow> frame \<Rightarrow> pyfloat list" where
  "score rd df =
     map2 (\<lambda>m c. fadd rd (fmul rd (Fin (1 / 2)) m) (fmul rd (Fin (1 / 2)) c))
          (mc_norm rd df) (ch_norm rd df)"

text \<open>
  The projection, lines 226 to 240. A literal such as \<open>0.20\<close> is the float nearest to it.
  \<open>format_2f\<close> is the number that \<open>:,.2f\<close> prints: the value rounded to hundredths, ties
  to even.
\<close>

definition scenarios :: "rounding \<Rightarrow> (string \<times> pyfloat) list" where
  "scenarios rd = [(''Conservative'', rd (20 / 100)), (''Moderate'', rd (50 / 100)),
                   (''Aggressive'', rd (120 / 100))]"

definition growth_percent :: "rounding \<Rightarrow> pyfloat \<Rightarrow> pyfloat \<Rightarrow> nat \<Rightarrow> pyfloat" where
  "growth_percent rd price rate year =
     (let future_price = fmul rd price (fpow rd (fadd rd (Fin 1) rate) year)
      in fmul rd (fdiv rd (fsub rd future_price price) price) (Fin 100))"

definition format_2f :: "pyfloat \<Rightarrow> pyfloat" where
  "format_2f x = (case x of Fin v \<Rightarrow> Fin (of_int (round_half_even (v * 100)) / 100) | _ \<Rightarrow> x)"

definition projections :: "rounding \<Rightarrow> pyfloat \<Rightarrow> (nat \<times> (string \<times> pyfloat) list) list" where
  "projections rd price =
     map (\<lambda>year. (year, map (\<lambda>(name, rate). (name, format_2f (growth_percent rd price rate year)))
                             (scenarios rd)))
         [1, 5, 10]"

section \<open>One cycle of \<open>main\<close>\<close>



section \<open>Example table rows\<close>






text \<open>A record with all three numbers present and finite.\<close>

definition coin_of :: "string \<Rightarrow> real \<Rightarrow> real \<Rightarrow> real \<Rightarrow> coin" where
  "coin_of name price change cap =
     \<lparr>Name = name, PriceUSD = Some (Fin price), Change24h_Percent = Some (Fin change),
      MarketCapUSD = Some (Fin cap)\<rparr>"

section \<open>Evaluation and helper lemmas\<close>

lemmas normalizer_defs = clean_numeric_text_def cleaned_def magnitude_def strip_def
  str_remove_def str_contains_def py_float_def parse_decimal_def parse_exponent_def
  number_ok_def digits_value_def digit_value_def is_digit_def is_space_def to_lower_def Let_def

lemma py_float_raises: "py_float rd t = Inl e \<Longrightarrow> e = ValueError"
  by (auto simp: py_float_def Let_def split: if_splits option.splits)

lemma clean_numeric_text_empty: "clean_numeric_text rd (PyStr []) = Inr None"
  by (simp add: clean_numeric_text_def cleaned_def magnitude_def strip_def str_remove_def
      str_contains_def py_float_def parse_decimal_def number_ok_def Let_def)

subsection \<open>The rounding \<open>binary64\<close>\<close>

lemma pow2_powr: "pow2 e = 2 powr (real_of_int e)"
  by (simp add: pow2_def powr_real_of_int inverse_eq_divide)

lemma pow2_pos: "0 < pow2 e"
  by (simp add: pow2_powr)

lemma pow2_less_iff: "pow2 a < pow2 b \<longleftrightarrow> a < b"
  by (simp add: pow2_powr)

lemma pow2_nat: "pow2 (int n) = 2 ^ n"
  by (simp add: pow2_def)

lemma pow2_neg_nat: "pow2 (- int n) = 1 / 2 ^ n"
  by (simp add: pow2_powr powr_minus powr_realpow inverse_eq_divide)

lemma pow2_add: "pow2 (a + b) = pow2 a * pow2 b"
  by (simp add: pow2_powr powr_add)

lemma binade_unique:
  assumes "pow2 a \<le> x" "x < pow2 (a + 1)" "pow2 b \<le> x" "x < pow2 (b + 1)"
  shows "a = b"
proof -
  from assms have "pow2 a < pow2 (b + 1)" "pow2 b < pow2 (a + 1)"
    by linarith+
  then show ?thesis
    by (simp add: pow2_less_iff)
qed

lemma bit_length_upper: "n < 2 ^ bit_length n"
proof (induction n rule: bit_length.induct)
  case (1 n)
  show ?case
  proof (cases "n = 0")
    case True
    then show ?thesis by (simp add: bit_length.simps)
  next
    case False
    with 1 have "n div 2 < 2 ^ bit_length (n div 2)" by simp
    then have "n < 2 * 2 ^ bit_length (n div 2)" by linarith
    with False show ?thesis by (subst bit_length.simps) simp
  qed
qed

lemma bit_length_lower: "0 < n \<Longrightarrow> 2 ^ (bit_length n - 1) \<le> n"
proof (induction n rule: bit_length.induct)
  case (1 n)
  then have n: "n \<noteq> 0" by simp
  show ?case
  proof (cases "n div 2 = 0")
    case True
    with n have "bit_length n = 1"
      by (simp add: bit_length.simps [of n] bit_length.simps [of 0])
    with 1 show ?thesis by simp
  next
    case False
    with 1 n have ih: "2 ^ (bit_length (n div 2) - 1) \<le> n div 2" by simp
    from False have "bit_length (n div 2) \<noteq> 0"
      by (simp add: bit_length.simps [of "n div 2"])
    then have "(2::nat) ^ bit_length (n div 2) = 2 * 2 ^ (bit_length (n div 2) - 1)"
      by (cases "bit_length (n div 2)") simp_all
    with ih have "2 ^ bit_length (n div 2) \<le> n" by linarith
    with n show ?thesis by (subst bit_length.simps) simp
  qed
qed

lemma bit_length_pos: "0 < n \<Longrightarrow> 0 < bit_length n"
  by (subst bit_length.simps) simp


lemma floor_log2_ge1:
  assumes "1 \<le> x"
  shows "pow2 (floor_log2 x) \<le> x \<and> x < pow2 (floor_log2 x + 1)"
proof -
  define n where "n = nat \<lfloor>x\<rfloor>"
  define b where "b = bit_length n"
  from assms have n1: "0 < n" and nx: "real n \<le> x" and xn: "x < real n + 1"
    unfolding n_def by linarith+
  have b1: "0 < b"
    unfolding b_def using n1 by (rule bit_length_pos)
  have fl: "floor_log2 x = int b - 1"
    using assms by (simp add: floor_log2_def n_def b_def)
  have "(2::nat) ^ (b - 1) \<le> n"
    unfolding b_def using n1 by (rule bit_length_lower)
  then have "real ((2::nat) ^ (b - 1)) \<le> real n"
    by (simp only: of_nat_le_iff)
  moreover have "real ((2::nat) ^ (b - 1)) = 2 ^ (b - 1)"
    by simp
  ultimately have lo: "(2::real) ^ (b - 1) \<le> x"
    using nx by linarith
  have "n + 1 \<le> 2 ^ b"
    using bit_length_upper [of n] unfolding b_def by simp
  then have "real (n + 1) \<le> real ((2::nat) ^ b)"
    by (simp only: of_nat_le_iff)
  moreover have "real ((2::nat) ^ b) = 2 ^ b" and "real (n + 1) = real n + 1"
    by simp_all
  ultimately have hi: "x < (2::real) ^ b"
    using xn by linarith
  have e1: "int b - 1 = int (b - 1)"
    using b1 by simp
  have e2: "int b - 1 + 1 = int b"
    by simp
  show ?thesis
    unfolding fl e2 unfolding e1 pow2_nat using lo hi by simp
qed

lemma floor_log2_lt1:
  assumes "0 < x" "x < 1"
  shows "pow2 (floor_log2 x) \<le> x \<and> x < pow2 (floor_log2 x + 1)"
proof -
  define y where "y = 1 / x"
  define n where "n = nat \<lfloor>y\<rfloor>"
  define b where "b = bit_length n"
  from assms have y1: "1 < y"
    by (simp add: y_def)
  then have n1: "0 < n" and ny: "real n \<le> y" and yn: "y < real n + 1"
    unfolding n_def by linarith+
  have b1: "0 < b"
    unfolding b_def using n1 by (rule bit_length_pos)
  have "(2::nat) ^ (b - 1) \<le> n"
    unfolding b_def using n1 by (rule bit_length_lower)
  then have "real ((2::nat) ^ (b - 1)) \<le> real n"
    by (simp only: of_nat_le_iff)
  moreover have "real ((2::nat) ^ (b - 1)) = 2 ^ (b - 1)"
    by simp
  ultimately have lo: "(2::real) ^ (b - 1) \<le> y"
    using ny by linarith
  have "n + 1 \<le> 2 ^ b"
    using bit_length_upper [of n] unfolding b_def by simp
  then have "real (n + 1) \<le> real ((2::nat) ^ b)"
    by (simp only: of_nat_le_iff)
  moreover have "real ((2::nat) ^ b) = 2 ^ b" and "real (n + 1) = real n + 1"
    by simp_all
  ultimately have hi: "y < (2::real) ^ b"
    using yn by linarith
  have xy: "x = 1 / y"
    using assms by (simp add: y_def)
  from hi y1 have lo': "1 / 2 ^ b < x"
    unfolding xy by (simp add: frac_less2)
  from lo have hi': "x \<le> 1 / 2 ^ (b - 1)"
    unfolding xy using y1 by (simp add: frac_le)
  have p1: "pow2 (- int b) = 1 / 2 ^ b"
    by (rule pow2_neg_nat)
  have p2: "pow2 (1 - int b) = 1 / 2 ^ (b - 1)"
    using pow2_neg_nat [of "b - 1"] b1 by (simp add: of_nat_diff)
  have fl: "floor_log2 x = (if x = pow2 (1 - int b) then 1 - int b else - int b)"
    using assms by (simp add: floor_log2_def y_def n_def b_def Let_def)
  show ?thesis
  proof (cases "x = pow2 (1 - int b)")
    case True
    then have "floor_log2 x = 1 - int b"
      using fl by simp
    moreover have "pow2 (1 - int b) < pow2 (1 - int b + 1)"
      by (simp add: pow2_less_iff)
    ultimately show ?thesis
      using True by simp
  next
    case False
    then have f: "floor_log2 x = - int b"
      using fl by simp
    have "x < pow2 (1 - int b)"
      using False hi' p2 by simp
    moreover have "pow2 (- int b) \<le> x"
      using lo' p1 by simp
    moreover have "- int b + 1 = 1 - int b"
      by simp
    ultimately show ?thesis
      unfolding f by simp
  qed
qed

lemma floor_log2_bounds:
  "0 < x \<Longrightarrow> pow2 (floor_log2 x) \<le> x \<and> x < pow2 (floor_log2 x + 1)"
  using floor_log2_ge1 [of x] floor_log2_lt1 [of x] by (cases "1 \<le> x") simp_all

lemma floor_log2_eq:
  assumes "pow2 k \<le> x" "x < pow2 (k + 1)"
  shows "floor_log2 x = k"
proof -
  have "0 < x"
    using assms(1) pow2_pos [of k] by linarith
  then have "pow2 (floor_log2 x) \<le> x \<and> x < pow2 (floor_log2 x + 1)"
    by (rule floor_log2_bounds)
  then show ?thesis
    using assms binade_unique by blast
qed

text \<open>Evaluating \<open>binary64\<close> on a positive number in the normal range, the binade given.\<close>

lemma binary64_normal:
  assumes "pow2 k \<le> x" "x < pow2 (k + 1)" "- 1022 \<le> k" "k < 1023"
    and "round_half_even (x / pow2 (k - 52)) = m"
  shows "binary64 x = Fin (of_int m * pow2 (k - 52))"
proof -
  have x0: "0 < x"
    using assms(1) pow2_pos [of k] by linarith
  have fl: "floor_log2 \<bar>x\<bar> = k"
    using x0 assms(1,2) by (simp add: floor_log2_eq)
  have e: "max (k - 52) (- 1074) = k - 52"
    using assms(3) by simp
  have "x / pow2 (k - 52) < pow2 53"
  proof -
    have "pow2 (k + 1) = pow2 53 * pow2 (k - 52)"
      using pow2_add [of 53 "k - 52"] by (simp add: add.commute)
    with assms(2) show ?thesis
      using pow2_pos [of "k - 52"] by (simp add: pos_divide_less_eq)
  qed
  then have "round_half_even (x / pow2 (k - 52)) \<le> 2 ^ 53"
    by (simp add: round_half_even_def Let_def pow2_def)
  then have "real_of_int m \<le> 2 ^ 53"
    using assms(5) by (metis of_int_le_iff of_int_numeral of_int_power)
  then have "real_of_int m * pow2 (k - 52) \<le> pow2 53 * pow2 (k - 52)"
    using pow2_pos [of "k - 52"] by (simp add: pow2_def)
  also have "\<dots> = pow2 (k + 1)"
    using pow2_add [of 53 "k - 52"] by (simp add: add.commute)
  also have "\<dots> < pow2 1024"
    using assms(4) by (simp only: pow2_less_iff)
  finally have no: "\<not> pow2 1024 \<le> real_of_int m * pow2 (k - 52)"
    by simp
  show ?thesis
    using x0 fl e no assms(5) by (simp add: binary64_def Let_def)
qed

subsection \<open>Strings and the Normalizer\<close>









subsection \<open>The loop over the rows\<close>







subsection \<open>Comparisons and frames\<close>

lemma fge_iff_not_flt: "notna c \<Longrightarrow> fge c (Fin a) \<longleftrightarrow> \<not> flt c (Fin a)"
  by (cases c) (auto simp: fge_def notna_def)

lemma flt_Fin_trans: "flt c (Fin a) \<Longrightarrow> a \<le> b \<Longrightarrow> flt c (Fin b)"
  by (cases c) auto

lemma dropna_id_notna:
  "dropna df = df \<Longrightarrow> r \<in> set df \<Longrightarrow>
   notna (float64 (Change24h_Percent r)) \<and> notna (float64 (PriceUSD r))
   \<and> notna (float64 (MarketCapUSD r))"
  unfolding dropna_def filter_id_conv by blast

lemma tiers_of_notna:
  assumes "\<And>r. r \<in> set df \<Longrightarrow> notna (float64 (MarketCapUSD r))"
  shows "large_cap df + mid_cap df + small_cap df = length df"
  using assms
proof (induction df)
  case Nil
  show ?case
    by (simp add: large_cap_def mid_cap_def small_cap_def)
next
  case (Cons r df)
  then have ih: "large_cap df + mid_cap df + small_cap df = length df"
    by simp
  from Cons.prems have n: "notna (float64 (MarketCapUSD r))"
    by simp
  show ?case
  proof (cases "flt (float64 (MarketCapUSD r)) (Fin 1000000000)")
    case True
    then have "flt (float64 (MarketCapUSD r)) (Fin 10000000000)"
      by (rule flt_Fin_trans) simp
    with True n ih show ?thesis
      by (simp add: large_cap_def mid_cap_def small_cap_def fge_iff_not_flt)
  next
    case False
    with n ih show ?thesis
      by (simp add: large_cap_def mid_cap_def small_cap_def fge_iff_not_flt)
  qed
qed

subsection \<open>Sums and means\<close>

lemma round_half_even_of_int: "round_half_even (of_int m) = m"
  by (simp add: round_half_even_def)

text \<open>A number with a 53-bit significand is stored as it is.\<close>

lemma binary64_representable:
  assumes "pow2 k \<le> x" "x < pow2 (k + 1)" "- 1022 \<le> k" "k < 1023"
    and "x / pow2 (k - 52) = of_int m"
  shows "binary64 x = Fin x"
proof -
  have "round_half_even (x / pow2 (k - 52)) = m"
    by (simp only: assms(5) round_half_even_of_int)
  from binary64_normal [OF assms(1-4) this]
  have "binary64 x = Fin (of_int m * pow2 (k - 52))" .
  moreover have "of_int m * pow2 (k - 52) = x"
    using assms(5) pow2_pos [of "k - 52"] by (simp add: field_simps)
  ultimately show ?thesis
    by simp
qed

lemma foldl_fadd_exact:
  "foldl (fadd exact) (Fin a) (map Fin xs) = Fin (a + sum_list xs)"
  by (induction xs arbitrary: a) (simp_all add: exact_def add.assoc)

lemma filter_notna_Fin: "filter notna (map Fin xs) = map Fin xs"
  by (induction xs) (simp_all add: notna_def)

lemma series_sum_exact: "series_sum exact (map Fin xs) = Fin (sum_list xs)"
  by (simp add: series_sum_def filter_notna_Fin foldl_fadd_exact)


lemma binary64_small_ints:
  "binary64 1 = Fin 1" "binary64 2 = Fin 2" "binary64 4 = Fin 4"
proof -
  show "binary64 1 = Fin 1"
    by (rule binary64_representable [of 0 _ "2 ^ 52"]) (simp_all add: pow2_def)
  show "binary64 2 = Fin 2"
    by (rule binary64_representable [of 1 _ "2 ^ 52"]) (simp_all add: pow2_def)
  show "binary64 4 = Fin 4"
    by (rule binary64_representable [of 2 _ "2 ^ 52"]) (simp_all add: pow2_def)
qed


subsection \<open>Weighted sums\<close>

lemma binary64_zero: "binary64 0 = Fin 0"
  by (simp add: binary64_def)

lemma binary64_minus: "binary64 (- x) = fneg (binary64 x)"
  by (simp add: binary64_def Let_def)

lemma map2_fmul_exact:
  "map2 (fmul exact) (map Fin cs) (map Fin ms) = map Fin (map2 (*) cs ms)"
  by (simp add: zip_map_map exact_def split_def)

lemma weighted_avg_change_exact:
  assumes "column Change24h_Percent df = map Fin cs" "column MarketCapUSD df = map Fin ms"
  shows "weighted_avg_change exact df
         = fdiv exact (Fin (sum_list (map2 (*) cs ms))) (Fin (sum_list ms))"
  unfolding weighted_avg_change_def assms map2_fmul_exact series_sum_exact by (rule refl)

lemma binary64_caps:
  "binary64 1000000000 = Fin 1000000000" "binary64 2000000000 = Fin 2000000000"
  "binary64 10000000000 = Fin 10000000000"
proof -
  show "binary64 1000000000 = Fin 1000000000"
    by (rule binary64_representable [of 29 _ "1000000000 * 2 ^ 23"]) (simp_all add: pow2_def)
  show "binary64 2000000000 = Fin 2000000000"
    by (rule binary64_representable [of 30 _ "2000000000 * 2 ^ 22"]) (simp_all add: pow2_def)
  show "binary64 10000000000 = Fin 10000000000"
    by (rule binary64_representable [of 33 _ "10000000000 * 2 ^ 19"]) (simp_all add: pow2_def)
qed

subsection \<open>Extremes of a series\<close>




subsection \<open>A constant series\<close>

lemma arg_best_constant:
  "\<not> better (Fin c) (Fin c) \<Longrightarrow>
   arg_best better (replicate n (Fin c)) i (Some (j, Fin c)) = Some (j, Fin c)"
  by (induction n arbitrary: i) (simp_all add: notna_def)

lemma series_extremes_constant:
  assumes "0 < n"
  shows "series_min (replicate n (Fin c)) = Fin c" and "series_max (replicate n (Fin c)) = Fin c"
proof -
  from assms obtain k where n: "n = Suc k"
    by (cases n) auto
  show "series_min (replicate n (Fin c)) = Fin c"
    by (simp add: series_min_def n notna_def arg_best_constant)
  show "series_max (replicate n (Fin c)) = Fin c"
    by (simp add: series_max_def n notna_def arg_best_constant fgt_def)
qed

lemma min_max_norm_constant:
  assumes "0 < n" "rd 0 = Fin 0"
  shows "min_max_norm rd (replicate n (Fin c)) = replicate n NaN"
  by (simp add: min_max_norm_def series_extremes_constant [OF assms(1)] fsub_def assms(2)
      inf_of_sign_def map_replicate_const)

lemma score_of_NaN:
  "length ys = n \<Longrightarrow>
   map2 (\<lambda>m c. fadd rd (fmul rd h m) (fmul rd h c)) (replicate n NaN) ys = replicate n NaN"
  "length ys = n \<Longrightarrow>
   map2 (\<lambda>m c. fadd rd (fmul rd h m) (fmul rd h c)) ys (replicate n NaN) = replicate n NaN"
proof -
  have a: "fadd rd (fmul rd h NaN) x = NaN" for x
    by (cases h) simp_all
  have b: "fadd rd x (fmul rd h NaN) = NaN" for x
    by (cases h; cases x) simp_all
  show "length ys = n \<Longrightarrow>
   map2 (\<lambda>m c. fadd rd (fmul rd h m) (fmul rd h c)) (replicate n NaN) ys = replicate n NaN"
    by (induction ys arbitrary: n) (auto simp: a)
  show "length ys = n \<Longrightarrow>
   map2 (\<lambda>m c. fadd rd (fmul rd h m) (fmul rd h c)) ys (replicate n NaN) = replicate n NaN"
    by (induction ys arbitrary: n) (auto simp: b)
qed

lemma length_min_max_norm: "length (min_max_norm rd xs) = length xs"
  by (simp add: min_max_norm_def)

subsection \<open>The growth formula\<close>

lemma binary64_3_10: "binary64 (3 / 10) = Fin (5404319552844595 / 18014398509481984)"
proof -
  have "round_half_even (3 / 10 / pow2 (-2 - 52)) = 5404319552844595"
    by (simp add: round_half_even_def pow2_def Let_def)
  from binary64_normal [of "-2" "3 / 10", OF _ _ _ _ this] show ?thesis
    by (simp add: pow2_def)
qed

lemma binary64_3_2: "binary64 (3 / 2) = Fin (3 / 2)"
proof -
  have "round_half_even (3 / 2 / pow2 (0 - 52)) = 6755399441055744"
    by (simp add: round_half_even_def pow2_def Let_def)
  from binary64_normal [of "0" "3 / 2", OF _ _ _ _ this] show ?thesis
    by (simp add: pow2_def)
qed

lemma binary64_243_32: "binary64 (243 / 32) = Fin (243 / 32)"
proof -
  have "round_half_even (243 / 32 / pow2 (2 - 52)) = 8549802417586176"
    by (simp add: round_half_even_def pow2_def Let_def)
  from binary64_normal [of "2" "243 / 32", OF _ _ _ _ this] show ?thesis
    by (simp add: pow2_def)
qed

lemma binary64_future_a: "binary64 (6075 / 8) = Fin (6075 / 8)"
proof -
  have "round_half_even (6075 / 8 / pow2 (9 - 52)) = 6679533138739200"
    by (simp add: round_half_even_def pow2_def Let_def)
  from binary64_normal [of "9" "6075 / 8", OF _ _ _ _ this] show ?thesis
    by (simp add: pow2_def)
qed

lemma binary64_gain_a: "binary64 (5275 / 8) = Fin (5275 / 8)"
proof -
  have "round_half_even (5275 / 8 / pow2 (9 - 52)) = 5799923836518400"
    by (simp add: round_half_even_def pow2_def Let_def)
  from binary64_normal [of "9" "5275 / 8", OF _ _ _ _ this] show ?thesis
    by (simp add: pow2_def)
qed

lemma binary64_ratio_a: "binary64 (211 / 32) = Fin (211 / 32)"
proof -
  have "round_half_even (211 / 32 / pow2 (2 - 52)) = 7423902510743552"
    by (simp add: round_half_even_def pow2_def Let_def)
  from binary64_normal [of "2" "211 / 32", OF _ _ _ _ this] show ?thesis
    by (simp add: pow2_def)
qed

lemma binary64_future_b: "binary64 (1313249651341236585 / 576460752303423488) = Fin (5129881450551705 / 2251799813685248)"
proof -
  have "round_half_even (1313249651341236585 / 576460752303423488 / pow2 (1 - 52)) = 5129881450551705"
    by (simp add: round_half_even_def pow2_def Let_def)
  from binary64_normal [of "1" "1313249651341236585 / 576460752303423488", OF _ _ _ _ this] show ?thesis
    by (simp add: pow2_def)
qed

lemma binary64_gain_b: "binary64 (35634732051569045 / 18014398509481984) = Fin (8908683012892261 / 4503599627370496)"
proof -
  have "round_half_even (35634732051569045 / 18014398509481984 / pow2 (0 - 52)) = 8908683012892261"
    by (simp add: round_half_even_def pow2_def Let_def)
  from binary64_normal [of "0" "35634732051569045 / 18014398509481984", OF _ _ _ _ this] show ?thesis
    by (simp add: pow2_def)
qed

lemma binary64_ratio_b: "binary64 (35634732051569044 / 5404319552844595) = Fin (7423902510743551 / 1125899906842624)"
proof -
  have "round_half_even (35634732051569044 / 5404319552844595 / pow2 (2 - 52)) = 7423902510743551"
    by (simp add: round_half_even_def pow2_def Let_def)
  from binary64_normal [of "2" "35634732051569044 / 5404319552844595", OF _ _ _ _ this] show ?thesis
    by (simp add: pow2_def)
qed

lemma binary64_percent_b: "binary64 (185597562768588775 / 281474976710656) = Fin (5799923836518399 / 8796093022208)"
proof -
  have "round_half_even (185597562768588775 / 281474976710656 / pow2 (9 - 52)) = 5799923836518399"
    by (simp add: round_half_even_def pow2_def Let_def)
  from binary64_normal [of "9" "185597562768588775 / 281474976710656", OF _ _ _ _ this] show ?thesis
    by (simp add: pow2_def)
qed

lemma binary64_price_b: "binary64 (5404319552844595 / 18014398509481984) = Fin (5404319552844595 / 18014398509481984)"
proof -
  have "round_half_even (5404319552844595 / 18014398509481984 / pow2 (-2 - 52)) = 5404319552844595"
    by (simp add: round_half_even_def pow2_def Let_def)
  from binary64_normal [of "-2" "5404319552844595 / 18014398509481984", OF _ _ _ _ this] show ?thesis
    by (simp add: pow2_def)
qed

lemma binary64_1_2: "binary64 (1 / 2) = Fin (1 / 2)"
proof -
  have "round_half_even (1 / 2 / pow2 (-1 - 52)) = 4503599627370496"
    by (simp add: round_half_even_def pow2_def Let_def)
  from binary64_normal [of "-1" "1 / 2", OF _ _ _ _ this] show ?thesis
    by (simp add: pow2_def)
qed

lemma growth_percent_exact_value:
  assumes "p \<noteq> 0"
  shows "growth_percent exact (Fin p) (Fin r) n = Fin (((1 + r) ^ n - 1) * 100)"
proof -
  have "(p * (1 + r) ^ n - p) / p = (1 + r) ^ n - 1"
    using assms by (simp add: field_simps)
  then show ?thesis
    by (simp add: growth_percent_def fsub_def exact_def Let_def assms)
qed

lemma projections_moderate_5:
  "snd (snd (projections rd price ! 1) ! 1) = format_2f (growth_percent rd price (rd (1 / 2)) 5)"
  by (simp add: projections_def scenarios_def)

lemma projections_exact_table:
  assumes "p \<noteq> 0"
  shows "projections exact (Fin p)
         = [(1, [(''Conservative'', Fin 20), (''Moderate'', Fin 50), (''Aggressive'', Fin 120)]),
            (5, [(''Conservative'', Fin (14883 / 100)), (''Moderate'', Fin (32969 / 50)),
                 (''Aggressive'', Fin (505363 / 100))]),
            (10, [(''Conservative'', Fin (51917 / 100)), (''Moderate'', Fin (11333 / 2)),
                  (''Aggressive'', Fin (26549923 / 100))])]"
proof -
  have s: "scenarios exact = [(''Conservative'', Fin (1 / 5)), (''Moderate'', Fin (1 / 2)),
                              (''Aggressive'', Fin (6 / 5))]"
    by (simp add: scenarios_def exact_def)
  have t: "projections exact (Fin p)
         = [(1, [(''Conservative'', format_2f (growth_percent exact (Fin p) (Fin (1 / 5)) 1)), (''Moderate'', format_2f (growth_percent exact (Fin p) (Fin (1 / 2)) 1)), (''Aggressive'', format_2f (growth_percent exact (Fin p) (Fin (6 / 5)) 1))]),
            (5, [(''Conservative'', format_2f (growth_percent exact (Fin p) (Fin (1 / 5)) 5)), (''Moderate'', format_2f (growth_percent exact (Fin p) (Fin (1 / 2)) 5)), (''Aggressive'', format_2f (growth_percent exact (Fin p) (Fin (6 / 5)) 5))]),
            (10, [(''Conservative'', format_2f (growth_percent exact (Fin p) (Fin (1 / 5)) 10)), (''Moderate'', format_2f (growth_percent exact (Fin p) (Fin (1 / 2)) 10)), (''Aggressive'', format_2f (growth_percent exact (Fin p) (Fin (6 / 5)) 10))])]"
    by (simp add: projections_def s)
  have g_c1: "growth_percent exact (Fin p) (Fin (1 / 5)) 1 = Fin (20)"
    by (simp add: growth_percent_exact_value [OF assms] power_divide)
  have g_m1: "growth_percent exact (Fin p) (Fin (1 / 2)) 1 = Fin (50)"
    by (simp add: growth_percent_exact_value [OF assms] power_divide)
  have g_a1: "growth_percent exact (Fin p) (Fin (6 / 5)) 1 = Fin (120)"
    by (simp add: growth_percent_exact_value [OF assms] power_divide)
  have g_c5: "growth_percent exact (Fin p) (Fin (1 / 5)) 5 = Fin (18604 / 125)"
    by (simp add: growth_percent_exact_value [OF assms] power_divide)
  have g_m5: "growth_percent exact (Fin p) (Fin (1 / 2)) 5 = Fin (5275 / 8)"
    by (simp add: growth_percent_exact_value [OF assms] power_divide)
  have g_a5: "growth_percent exact (Fin p) (Fin (6 / 5)) 5 = Fin (631704 / 125)"
    by (simp add: growth_percent_exact_value [OF assms] power_divide)
  have g_c10: "growth_percent exact (Fin p) (Fin (1 / 5)) 10 = Fin (202802204 / 390625)"
    by (simp add: growth_percent_exact_value [OF assms] power_divide)
  have g_m10: "growth_percent exact (Fin p) (Fin (1 / 2)) 10 = Fin (1450625 / 256)"
    by (simp add: growth_percent_exact_value [OF assms] power_divide)
  have g_a10: "growth_percent exact (Fin p) (Fin (6 / 5)) 10 = Fin (103710635904 / 390625)"
    by (simp add: growth_percent_exact_value [OF assms] power_divide)
  have f_c1: "format_2f (Fin (20)) = Fin (20)"
    by (simp add: format_2f_def round_half_even_def Let_def)
  have f_m1: "format_2f (Fin (50)) = Fin (50)"
    by (simp add: format_2f_def round_half_even_def Let_def)
  have f_a1: "format_2f (Fin (120)) = Fin (120)"
    by (simp add: format_2f_def round_half_even_def Let_def)
  have f_c5: "format_2f (Fin (18604 / 125)) = Fin (14883 / 100)"
    by (simp add: format_2f_def round_half_even_def Let_def)
  have f_m5: "format_2f (Fin (5275 / 8)) = Fin (32969 / 50)"
    by (simp add: format_2f_def round_half_even_def Let_def)
  have f_a5: "format_2f (Fin (631704 / 125)) = Fin (505363 / 100)"
    by (simp add: format_2f_def round_half_even_def Let_def)
  have f_c10: "format_2f (Fin (202802204 / 390625)) = Fin (51917 / 100)"
    by (simp add: format_2f_def round_half_even_def Let_def)
  have f_m10: "format_2f (Fin (1450625 / 256)) = Fin (11333 / 2)"
    by (simp add: format_2f_def round_half_even_def Let_def)
  have f_a10: "format_2f (Fin (103710635904 / 390625)) = Fin (26549923 / 100)"
    by (simp add: format_2f_def round_half_even_def Let_def)
  show ?thesis
    unfolding t g_c1 g_m1 g_a1 g_c5 g_m5 g_a5 g_c10 g_m10 g_a10
      f_c1 f_m1 f_a1 f_c5 f_m5 f_a5 f_c10 f_m10 f_a10
    by (rule refl)
qed

section \<open>The Numeric Normalizer never raises\<close>

text \<open>
  Claim C1. For every rounding and every input value, \<open>clean_numeric_text\<close> returns (a float
  or \<open>None\<close>) and raises nothing. An input that is not a string, \<open>None\<close> included, gives
  \<open>None\<close>; a string whose cleaned text, the magnitude letter removed, is rejected by
  \<open>float\<close> gives \<open>None\<close>; a string whose text is accepted gives the float times the
  multiplier. The empty string and \<open>None\<close> give \<open>None\<close>.
\<close>

theorem clean_numeric_text_never_raises:
  "(\<exists>r. clean_numeric_text rd v = Inr r)
   \<and> ((\<forall>s. v \<noteq> PyStr s) \<longrightarrow> clean_numeric_text rd v = Inr None)
   \<and> (\<forall>s e. v = PyStr s \<and> py_float rd (snd (magnitude (cleaned s))) = Inl e
         \<longrightarrow> clean_numeric_text rd v = Inr None)
   \<and> (\<forall>s x. v = PyStr s \<and> py_float rd (snd (magnitude (cleaned s))) = Inr x
         \<longrightarrow> clean_numeric_text rd v = Inr (Some (fmul rd x (Fin (fst (magnitude (cleaned s)))))))
   \<and> clean_numeric_text rd (PyStr []) = Inr None
   \<and> clean_numeric_text rd PyNone = Inr None"
proof (intro conjI allI impI)
  show "\<exists>r. clean_numeric_text rd v = Inr r"
    by (cases v)
      (auto simp: clean_numeric_text_def split: prod.splits sum.splits dest: py_float_raises)
next
  assume "\<forall>s. v \<noteq> PyStr s"
  then show "clean_numeric_text rd v = Inr None"
    by (cases v) (simp_all add: clean_numeric_text_def)
next
  fix s e
  assume "v = PyStr s \<and> py_float rd (snd (magnitude (cleaned s))) = Inl e"
  then show "clean_numeric_text rd v = Inr None"
    by (auto simp: clean_numeric_text_def split: prod.splits sum.splits dest: py_float_raises)
next
  fix s x
  assume "v = PyStr s \<and> py_float rd (snd (magnitude (cleaned s))) = Inr x"
  then show "clean_numeric_text rd v = Inr (Some (fmul rd x (Fin (fst (magnitude (cleaned s))))))"
    by (auto simp: clean_numeric_text_def split: prod.splits sum.splits)
next
  show "clean_numeric_text rd (PyStr []) = Inr None"
    by (rule clean_numeric_text_empty)
next
  show "clean_numeric_text rd PyNone = Inr None"
    by (simp add: clean_numeric_text_def)
qed

theorem clean_numeric_text_never_raises_witness:
  "(\<forall>s. PyInt 5 \<noteq> PyStr s) \<and> clean_numeric_text exact (PyInt 5) = Inr None
   \<and> py_float exact (snd (magnitude (cleaned ''12abc''))) = Inl ValueError
   \<and> clean_numeric_text exact (PyStr ''12abc'') = Inr None
   \<and> py_float exact (snd (magnitude (cleaned ''$7M''))) = Inr (Fin 7)
   \<and> clean_numeric_text exact (PyStr ''$7M'') = Inr (Some (Fin 7000000))"
proof -
  have a: "py_float exact (snd (magnitude (cleaned ''12abc''))) = Inl ValueError"
    by (simp add: normalizer_defs)
  have b: "\<forall>s. PyInt 5 \<noteq> PyStr s"
    by simp
  have c: "py_float exact (snd (magnitude (cleaned ''$7M''))) = Inr (Fin 7)"
    by (simp add: normalizer_defs exact_def)
  have d: "fst (magnitude (cleaned ''$7M'')) = 1000000"
    by (simp add: normalizer_defs)
  from clean_numeric_text_never_raises [of exact "PyStr ''12abc''"] a
  have 1: "clean_numeric_text exact (PyStr ''12abc'') = Inr None"
    by blast
  from clean_numeric_text_never_raises [of exact "PyInt 5"] b
  have 2: "clean_numeric_text exact (PyInt 5) = Inr None"
    by blast
  from clean_numeric_text_never_raises [of exact "PyStr ''$7M''"] c
  have "clean_numeric_text exact (PyStr ''$7M'')
        = Inr (Some (fmul exact (Fin 7) (Fin (fst (magnitude (cleaned ''$7M''))))))"
    by blast
  then have 3: "clean_numeric_text exact (PyStr ''$7M'') = Inr (Some (Fin 7000000))"
    by (simp add: d exact_def)
  from a b c 1 2 3 show ?thesis
    by simp
qed

section \<open>Magnitude letters of the Numeric Normalizer\<close>



section \<open>Rows that are skipped\<close>



section \<open>The Snapshot Builder\<close>



section \<open>Cap tiers\<close>

text \<open>
  Claim C4. On a frame of qualifying records (no field missing) every record is counted in
  exactly one tier, so the three counts add up to the number of records. A record with a
  finite market cap \<open>m\<close> is Large when \<open>10^10 \<le> m\<close>, with no upper bound, Mid when
  \<open>10^9 \<le> m < 10^10\<close> and Small when \<open>m < 10^9\<close>. A cap of exactly \<open>10^10\<close> is counted
  Large and not Mid, one of exactly \<open>10^9\<close> Mid and not Small.
\<close>

theorem cap_tiers_partition:
  "(dropna df = df \<longrightarrow> large_cap df + mid_cap df + small_cap df = length df)
   \<and> (MarketCapUSD r = Some (Fin m) \<longrightarrow>
        large_cap [r] = (if 10000000000 \<le> m then 1 else 0)
        \<and> mid_cap [r] = (if 1000000000 \<le> m \<and> m < 10000000000 then 1 else 0)
        \<and> small_cap [r] = (if m < 1000000000 then 1 else 0))
   \<and> (MarketCapUSD r = Some (Fin 10000000000) \<longrightarrow>
        large_cap [r] = 1 \<and> mid_cap [r] = 0 \<and> small_cap [r] = 0)
   \<and> (MarketCapUSD r = Some (Fin 1000000000) \<longrightarrow>
        large_cap [r] = 0 \<and> mid_cap [r] = 1 \<and> small_cap [r] = 0)
   \<and> large_cap (df @ df') = large_cap df + large_cap df'
   \<and> mid_cap (df @ df') = mid_cap df + mid_cap df'
   \<and> small_cap (df @ df') = small_cap df + small_cap df'"
proof (intro conjI impI)
  assume "dropna df = df"
  then have "\<And>r. r \<in> set df \<Longrightarrow> notna (float64 (MarketCapUSD r))"
    using dropna_id_notna by blast
  then show "large_cap df + mid_cap df + small_cap df = length df"
    by (rule tiers_of_notna)
next
  assume "MarketCapUSD r = Some (Fin m)"
  then show "large_cap [r] = (if 10000000000 \<le> m then 1 else 0)"
    and "mid_cap [r] = (if 1000000000 \<le> m \<and> m < 10000000000 then 1 else 0)"
    and "small_cap [r] = (if m < 1000000000 then 1 else 0)"
    by (auto simp: large_cap_def mid_cap_def small_cap_def fge_def float64_def)
next
  assume "MarketCapUSD r = Some (Fin 10000000000)"
  then show "large_cap [r] = 1" and "mid_cap [r] = 0" and "small_cap [r] = 0"
    by (simp_all add: large_cap_def mid_cap_def small_cap_def fge_def float64_def)
next
  assume "MarketCapUSD r = Some (Fin 1000000000)"
  then show "large_cap [r] = 0" and "mid_cap [r] = 1" and "small_cap [r] = 0"
    by (simp_all add: large_cap_def mid_cap_def small_cap_def fge_def float64_def)
next
  show "large_cap (df @ df') = large_cap df + large_cap df'"
    and "mid_cap (df @ df') = mid_cap df + mid_cap df'"
    and "small_cap (df @ df') = small_cap df + small_cap df'"
    by (simp_all add: large_cap_def mid_cap_def small_cap_def)
qed

theorem cap_tiers_partition_witness:
  "dropna [coin_of ''BTC'' 2 1 10000000000, coin_of ''ETH'' 1 2 1000000000,
           coin_of ''XRP'' 1 2 999999999]
   = [coin_of ''BTC'' 2 1 10000000000, coin_of ''ETH'' 1 2 1000000000,
      coin_of ''XRP'' 1 2 999999999]
   \<and> large_cap [coin_of ''BTC'' 2 1 10000000000, coin_of ''ETH'' 1 2 1000000000,
                coin_of ''XRP'' 1 2 999999999]
     + mid_cap [coin_of ''BTC'' 2 1 10000000000, coin_of ''ETH'' 1 2 1000000000,
                coin_of ''XRP'' 1 2 999999999]
     + small_cap [coin_of ''BTC'' 2 1 10000000000, coin_of ''ETH'' 1 2 1000000000,
                  coin_of ''XRP'' 1 2 999999999] = 3
   \<and> MarketCapUSD (coin_of ''BTC'' 2 1 10000000000) = Some (Fin 10000000000)
   \<and> large_cap [coin_of ''BTC'' 2 1 10000000000] = 1
   \<and> mid_cap [coin_of ''BTC'' 2 1 10000000000] = 0
   \<and> MarketCapUSD (coin_of ''ETH'' 1 2 1000000000) = Some (Fin 1000000000)
   \<and> mid_cap [coin_of ''ETH'' 1 2 1000000000] = 1
   \<and> small_cap [coin_of ''ETH'' 1 2 1000000000] = 0"
proof -
  let ?df = "[coin_of ''BTC'' 2 1 10000000000, coin_of ''ETH'' 1 2 1000000000,
              coin_of ''XRP'' 1 2 999999999]"
  have d: "dropna ?df = ?df"
    by (simp add: dropna_def notna_def float64_def coin_of_def)
  have 1: "large_cap ?df + mid_cap ?df + small_cap ?df = 3"
    using cap_tiers_partition [of ?df, THEN conjunct1, rule_format, OF d] by simp
  have b: "MarketCapUSD (coin_of ''BTC'' 2 1 10000000000) = Some (Fin 10000000000)"
    by (simp add: coin_of_def)
  note tb = cap_tiers_partition [of "[]" "coin_of ''BTC'' 2 1 10000000000" 0 "[]",
      THEN conjunct2, THEN conjunct2, THEN conjunct1, rule_format, OF b]
  have e: "MarketCapUSD (coin_of ''ETH'' 1 2 1000000000) = Some (Fin 1000000000)"
    by (simp add: coin_of_def)
  note te = cap_tiers_partition [of "[]" "coin_of ''ETH'' 1 2 1000000000" 0 "[]",
      THEN conjunct2, THEN conjunct2, THEN conjunct2, THEN conjunct1, rule_format, OF e]
  show ?thesis
    using d 1 b e tb te by (intro conjI) (simp_all only:)
qed

section \<open>Sentiment\<close>



section \<open>Weighted sentiment\<close>

text \<open>
  Claim C6 says that a total market cap of zero makes the weighted sentiment fail with a
  DivisionUndefined condition. It does not: for one record with market cap 0 and change 5
  the total is 0, the quotient of the two sums is not-a-number, and the label Bearish is
  computed from it.
\<close>

theorem weighted_sentiment_zero_cap_counterexample:
  "series_sum binary64 (column MarketCapUSD [coin_of ''A'' 1 5 0]) = Fin 0
   \<and> weighted_avg_change binary64 [coin_of ''A'' 1 5 0] = NaN
   \<and> weighted_sentiment binary64 [coin_of ''A'' 1 5 0] = Bearish"
  by (simp add: weighted_sentiment_def weighted_avg_change_def series_sum_def column_def
      coin_of_def float64_def notna_def binary64_zero inf_of_sign_def sentiment_of_def fgt_def)

text \<open>
  Claim C6 as amended. For finite changes \<open>cs\<close> and caps \<open>ms\<close> the weighted sentiment is,
  in exact arithmetic, the sum of the products divided by the sum of the caps when that sum
  is not zero. When it is zero nothing fails: the result is not-a-number if the sum of the
  products is zero as well, and the infinity with the sign of that sum otherwise. In every
  case the label is Bullish exactly when the result is greater than 0. For the caps
  \<open>10^9, 10^9\<close> and the changes \<open>10, -10\<close> the result is exactly 0, in exact arithmetic
  and in binary64.
\<close>

theorem weighted_sentiment_quotient:
  "(column Change24h_Percent df = map Fin cs \<and> column MarketCapUSD df = map Fin ms
      \<and> sum_list ms \<noteq> 0
      \<longrightarrow> weighted_avg_change exact df = Fin (sum_list (map2 (*) cs ms) / sum_list ms))
   \<and> (column Change24h_Percent df = map Fin cs \<and> column MarketCapUSD df = map Fin ms
      \<and> sum_list ms = 0
      \<longrightarrow> weighted_avg_change exact df
          = (if sum_list (map2 (*) cs ms) = 0 then NaN
             else if 0 < sum_list (map2 (*) cs ms) then PInf else NInf))
   \<and> (weighted_sentiment rd df = Bullish \<longleftrightarrow> fgt (weighted_avg_change rd df) (Fin 0))
   \<and> weighted_avg_change exact [coin_of ''A'' 1 10 1000000000, coin_of ''B'' 1 (- 10) 1000000000]
     = Fin 0
   \<and> weighted_avg_change binary64 [coin_of ''A'' 1 10 1000000000, coin_of ''B'' 1 (- 10) 1000000000]
     = Fin 0"
proof -
  have 1: "column Change24h_Percent df = map Fin cs \<and> column MarketCapUSD df = map Fin ms
      \<and> sum_list ms \<noteq> 0
      \<longrightarrow> weighted_avg_change exact df = Fin (sum_list (map2 (*) cs ms) / sum_list ms)"
    by (simp add: weighted_avg_change_exact exact_def)
  have 2: "column Change24h_Percent df = map Fin cs \<and> column MarketCapUSD df = map Fin ms
      \<and> sum_list ms = 0
      \<longrightarrow> weighted_avg_change exact df
          = (if sum_list (map2 (*) cs ms) = 0 then NaN
             else if 0 < sum_list (map2 (*) cs ms) then PInf else NInf)"
    by (simp add: weighted_avg_change_exact inf_of_sign_def)
  have 3: "weighted_sentiment rd df = Bullish \<longleftrightarrow> fgt (weighted_avg_change rd df) (Fin 0)"
    by (simp add: weighted_sentiment_def sentiment_of_def)
  let ?df = "[coin_of ''A'' 1 10 1000000000, coin_of ''B'' 1 (- 10) 1000000000]"
  have col: "column Change24h_Percent ?df = [Fin 10, Fin (- 10)]"
    "column MarketCapUSD ?df = [Fin 1000000000, Fin 1000000000]"
    by (simp_all add: column_def coin_of_def float64_def)
  have 4: "weighted_avg_change exact ?df = Fin 0"
    by (simp add: weighted_avg_change_def col series_sum_def notna_def exact_def)
  have 5: "weighted_avg_change binary64 ?df = Fin 0"
    by (simp add: weighted_avg_change_def col series_sum_def notna_def binary64_minus
        binary64_caps binary64_zero)
  show ?thesis
    by (rule conjI [OF 1 conjI [OF 2 conjI [OF 3 conjI [OF 4 5]]]])
qed

theorem weighted_sentiment_quotient_witness:
  "column Change24h_Percent [coin_of ''A'' 1 4 1, coin_of ''B'' 1 1 3] = map Fin [4, 1]
   \<and> column MarketCapUSD [coin_of ''A'' 1 4 1, coin_of ''B'' 1 1 3] = map Fin [1, 3]
   \<and> sum_list [1, 3 :: real] \<noteq> 0
   \<and> weighted_avg_change exact [coin_of ''A'' 1 4 1, coin_of ''B'' 1 1 3] = Fin (7 / 4)
   \<and> column Change24h_Percent [coin_of ''A'' 1 5 0] = map Fin [5]
   \<and> column MarketCapUSD [coin_of ''A'' 1 5 0] = map Fin [0]
   \<and> sum_list [0 :: real] = 0
   \<and> weighted_avg_change exact [coin_of ''A'' 1 5 0] = NaN"
proof -
  have h1: "column Change24h_Percent [coin_of ''A'' 1 4 1, coin_of ''B'' 1 1 3] = map Fin [4, 1]
   \<and> column MarketCapUSD [coin_of ''A'' 1 4 1, coin_of ''B'' 1 1 3] = map Fin [1, 3]
   \<and> sum_list [1, 3 :: real] \<noteq> 0"
    by (simp add: column_def coin_of_def float64_def)
  note t1 = weighted_sentiment_quotient [of "[coin_of ''A'' 1 4 1, coin_of ''B'' 1 1 3]"
      "[4, 1]" "[1, 3]", THEN conjunct1, rule_format, OF h1]
  have r1: "weighted_avg_change exact [coin_of ''A'' 1 4 1, coin_of ''B'' 1 1 3] = Fin (7 / 4)"
    using t1 by simp
  have h2: "column Change24h_Percent [coin_of ''A'' 1 5 0] = map Fin [5]
   \<and> column MarketCapUSD [coin_of ''A'' 1 5 0] = map Fin [0]
   \<and> sum_list [0 :: real] = 0"
    by (simp add: column_def coin_of_def float64_def)
  note t2 = weighted_sentiment_quotient [of "[coin_of ''A'' 1 5 0]" "[5]" "[0]",
      THEN conjunct2, THEN conjunct1, rule_format, OF h2]
  have r2: "weighted_avg_change exact [coin_of ''A'' 1 5 0] = NaN"
    using t2 by simp
  from h1 r1 h2 r2 show ?thesis
    by blast
qed

section \<open>Analysis of an empty frame\<close>




section \<open>Min-max normalization of a constant metric\<close>

text \<open>
  Claim C8 says that the Scorer handles a metric whose values are all equal, by a constant
  or by a NormalizationUndefined condition, and never divides by zero silently. It does
  divide: for two records with the same market cap the column \<open>mc_norm\<close> is \<open>0 / 0\<close>,
  not-a-number, for both, nothing is raised, and both scores are not-a-number.
\<close>

theorem min_max_norm_constant_counterexample:
  "mc_norm binary64 [coin_of ''A'' 1 5 7, coin_of ''B'' 2 3 7] = [NaN, NaN]
   \<and> ch_norm binary64 [coin_of ''A'' 1 5 7, coin_of ''B'' 2 3 7] = [Fin 1, Fin 0]
   \<and> score binary64 [coin_of ''A'' 1 5 7, coin_of ''B'' 2 3 7] = [NaN, NaN]"
proof -
  let ?df = "[coin_of ''A'' 1 5 7, coin_of ''B'' 2 3 7]"
  have col: "column MarketCapUSD ?df = [Fin 7, Fin 7]"
    "column Change24h_Percent ?df = [Fin 5, Fin 3]"
    by (simp_all add: column_def coin_of_def float64_def)
  have 1: "mc_norm binary64 ?df = [NaN, NaN]"
    by (simp add: mc_norm_def col min_max_norm_def series_min_def series_max_def notna_def
        fgt_def fsub_def binary64_zero inf_of_sign_def)
  have 2: "ch_norm binary64 ?df = [Fin 1, Fin 0]"
    by (simp add: ch_norm_def col min_max_norm_def series_min_def series_max_def notna_def
        fgt_def fsub_def binary64_zero binary64_small_ints)
  have 3: "score binary64 ?df = [NaN, NaN]"
    by (simp add: score_def 1 2)
  show ?thesis
    by (rule conjI [OF 1 conjI [OF 2 3]])
qed

text \<open>
  Claim C8 as amended. When all values of a metric are the same finite number, nothing is
  raised and no constant is put in: the normalized value of every record for that metric is
  not-a-number, from \<open>0 / 0\<close>, and so is the composite score of every record. This holds
  for every rounding that stores 0 as 0, as exact arithmetic and binary64 do.
\<close>

theorem min_max_norm_constant_is_nan:
  "(df \<noteq> [] \<and> rd 0 = Fin 0 \<and> column MarketCapUSD df = replicate (length df) (Fin c)
      \<longrightarrow> mc_norm rd df = replicate (length df) NaN \<and> score rd df = replicate (length df) NaN)
   \<and> (df \<noteq> [] \<and> rd 0 = Fin 0 \<and> column Change24h_Percent df = replicate (length df) (Fin c)
      \<longrightarrow> ch_norm rd df = replicate (length df) NaN \<and> score rd df = replicate (length df) NaN)
   \<and> exact 0 = Fin 0 \<and> binary64 0 = Fin 0"
proof -
  have 1: "df \<noteq> [] \<and> rd 0 = Fin 0 \<and> column MarketCapUSD df = replicate (length df) (Fin c)
      \<longrightarrow> mc_norm rd df = replicate (length df) NaN \<and> score rd df = replicate (length df) NaN"
  proof
    assume a: "df \<noteq> [] \<and> rd 0 = Fin 0 \<and> column MarketCapUSD df = replicate (length df) (Fin c)"
    then have n: "0 < length df"
      by simp
    from a have m: "mc_norm rd df = replicate (length df) NaN"
      by (simp add: mc_norm_def min_max_norm_constant [OF n])
    have l: "length (ch_norm rd df) = length df"
      by (simp add: ch_norm_def length_min_max_norm column_def)
    have "score rd df = replicate (length df) NaN"
      unfolding score_def m by (rule score_of_NaN(1) [OF l])
    with m show "mc_norm rd df = replicate (length df) NaN \<and> score rd df = replicate (length df) NaN"
      by (rule conjI)
  qed
  have 2: "df \<noteq> [] \<and> rd 0 = Fin 0 \<and> column Change24h_Percent df = replicate (length df) (Fin c)
      \<longrightarrow> ch_norm rd df = replicate (length df) NaN \<and> score rd df = replicate (length df) NaN"
  proof
    assume a: "df \<noteq> [] \<and> rd 0 = Fin 0
               \<and> column Change24h_Percent df = replicate (length df) (Fin c)"
    then have n: "0 < length df"
      by simp
    from a have m: "ch_norm rd df = replicate (length df) NaN"
      by (simp add: ch_norm_def min_max_norm_constant [OF n])
    have l: "length (mc_norm rd df) = length df"
      by (simp add: mc_norm_def length_min_max_norm column_def)
    have "score rd df = replicate (length df) NaN"
      unfolding score_def m by (rule score_of_NaN(2) [OF l])
    with m show "ch_norm rd df = replicate (length df) NaN \<and> score rd df = replicate (length df) NaN"
      by (rule conjI)
  qed
  have 3: "exact 0 = Fin 0"
    by (simp add: exact_def)
  show ?thesis
    by (rule conjI [OF 1 conjI [OF 2 conjI [OF 3 binary64_zero]]])
qed

theorem min_max_norm_constant_is_nan_witness:
  "[coin_of ''A'' 1 5 7, coin_of ''B'' 2 3 7] \<noteq> [] \<and> binary64 0 = Fin 0
   \<and> column MarketCapUSD [coin_of ''A'' 1 5 7, coin_of ''B'' 2 3 7]
     = replicate (length [coin_of ''A'' 1 5 7, coin_of ''B'' 2 3 7]) (Fin 7)
   \<and> mc_norm binary64 [coin_of ''A'' 1 5 7, coin_of ''B'' 2 3 7]
     = replicate (length [coin_of ''A'' 1 5 7, coin_of ''B'' 2 3 7]) NaN
   \<and> score binary64 [coin_of ''A'' 1 5 7, coin_of ''B'' 2 3 7]
     = replicate (length [coin_of ''A'' 1 5 7, coin_of ''B'' 2 3 7]) NaN
   \<and> [coin_of ''A'' 1 4 7, coin_of ''B'' 2 4 9] \<noteq> [] \<and> exact 0 = Fin 0
   \<and> column Change24h_Percent [coin_of ''A'' 1 4 7, coin_of ''B'' 2 4 9]
     = replicate (length [coin_of ''A'' 1 4 7, coin_of ''B'' 2 4 9]) (Fin 4)
   \<and> ch_norm exact [coin_of ''A'' 1 4 7, coin_of ''B'' 2 4 9]
     = replicate (length [coin_of ''A'' 1 4 7, coin_of ''B'' 2 4 9]) NaN
   \<and> score exact [coin_of ''A'' 1 4 7, coin_of ''B'' 2 4 9]
     = replicate (length [coin_of ''A'' 1 4 7, coin_of ''B'' 2 4 9]) NaN"
proof -
  let ?d1 = "[coin_of ''A'' 1 5 7, coin_of ''B'' 2 3 7]"
  let ?d2 = "[coin_of ''A'' 1 4 7, coin_of ''B'' 2 4 9]"
  have a1: "?d1 \<noteq> []" and a2: "?d2 \<noteq> []"
    by simp_all
  have z1: "binary64 0 = Fin 0"
    by (rule binary64_zero)
  have z2: "exact 0 = Fin 0"
    by (simp add: exact_def)
  have c1: "column MarketCapUSD ?d1 = replicate (length ?d1) (Fin 7)"
    by (simp add: column_def coin_of_def float64_def numeral_2_eq_2)
  have c2: "column Change24h_Percent ?d2 = replicate (length ?d2) (Fin 4)"
    by (simp add: column_def coin_of_def float64_def numeral_2_eq_2)
  note r1 = min_max_norm_constant_is_nan [of ?d1 binary64 7, THEN conjunct1, rule_format,
      OF conjI [OF a1 conjI [OF z1 c1]]]
  note r2 = min_max_norm_constant_is_nan [of ?d2 exact 4, THEN conjunct2, THEN conjunct1,
      rule_format, OF conjI [OF a2 conjI [OF z2 c2]]]
  show ?thesis
    by (rule conjI [OF a1 conjI [OF z1 conjI [OF c1 conjI [OF conjunct1 [OF r1]
        conjI [OF conjunct2 [OF r1] conjI [OF a2 conjI [OF z2 conjI [OF c2
        conjI [OF conjunct1 [OF r2] conjunct2 [OF r2]]]]]]]]]])
qed

section \<open>Growth projection\<close>

text \<open>
  Claim C10 says that the computed growth percentage does not depend on the price. With the
  rounding of binary64, which the program computes with, it does: for the rate 0.50 over 5
  years the price 100 gives 659.375, printed as 659.38, and the price 0.3 (the float that
  \<open>$0.3\<close> is normalized to) gives 659.3749999999999, printed as 659.37, so the two
  tables differ.
\<close>

theorem growth_percent_price_counterexample:
  "clean_numeric_text binary64 (PyStr ''$0.3'')
     = Inr (Some (Fin (5404319552844595 / 18014398509481984)))
   \<and> growth_percent binary64 (Fin 100) (Fin (1 / 2)) 5 = Fin (5275 / 8)
   \<and> growth_percent binary64 (Fin (5404319552844595 / 18014398509481984)) (Fin (1 / 2)) 5
     = Fin (5799923836518399 / 8796093022208)
   \<and> format_2f (Fin (5275 / 8)) = Fin (32969 / 50)
   \<and> format_2f (Fin (5799923836518399 / 8796093022208)) = Fin (65937 / 100)
   \<and> projections binary64 (Fin 100)
     \<noteq> projections binary64 (Fin (5404319552844595 / 18014398509481984))"
proof -
  have 1: "clean_numeric_text binary64 (PyStr ''$0.3'')
     = Inr (Some (Fin (5404319552844595 / 18014398509481984)))"
    by (simp add: normalizer_defs binary64_3_10 binary64_price_b)
  have 2: "growth_percent binary64 (Fin 100) (Fin (1 / 2)) 5 = Fin (5275 / 8)"
    by (simp add: growth_percent_def fsub_def Let_def power_divide binary64_3_2 binary64_243_32
        binary64_future_a binary64_gain_a binary64_ratio_a)
  have 3: "growth_percent binary64 (Fin (5404319552844595 / 18014398509481984)) (Fin (1 / 2)) 5
     = Fin (5799923836518399 / 8796093022208)"
    by (simp add: growth_percent_def fsub_def Let_def power_divide binary64_3_2 binary64_243_32
        binary64_future_b binary64_gain_b binary64_ratio_b binary64_percent_b)
  have 4: "format_2f (Fin (5275 / 8)) = Fin (32969 / 50)"
    by (simp add: format_2f_def round_half_even_def Let_def)
  have 5: "format_2f (Fin (5799923836518399 / 8796093022208)) = Fin (65937 / 100)"
    by (simp add: format_2f_def round_half_even_def Let_def)
  have 6: "projections binary64 (Fin 100)
     \<noteq> projections binary64 (Fin (5404319552844595 / 18014398509481984))"
  proof
    assume "projections binary64 (Fin 100)
            = projections binary64 (Fin (5404319552844595 / 18014398509481984))"
    then have "snd (snd (projections binary64 (Fin 100) ! 1) ! 1)
               = snd (snd (projections binary64 (Fin (5404319552844595 / 18014398509481984)) ! 1) ! 1)"
      by (rule arg_cong)
    then have "Fin (32969 / 50) = Fin (65937 / 100)"
      unfolding projections_moderate_5 binary64_1_2 2 3 4 5 .
    then show False
      by simp
  qed
  show ?thesis
    by (rule conjI [OF 1 conjI [OF 2 conjI [OF 3 conjI [OF 4 conjI [OF 5 6]]]]])
qed

text \<open>
  Claim C10 as amended. In exact arithmetic, for every strictly positive price, every rate
  and every horizon the growth percentage \<open>((price * (1 + rate)^years - price) / price) * 100\<close>
  equals \<open>((1 + rate)^years - 1) * 100\<close>, so two positive prices give the same growth
  percentages and the same table, which is determined by the rates 0.20, 0.50 and 1.20 and
  the horizons 1, 5 and 10 years alone. The horizons and scenario names of the table do not
  depend on the price under any rounding.
\<close>

theorem growth_percent_exact_independent_of_price:
  "(0 < p \<longrightarrow> growth_percent exact (Fin p) (Fin r) n = Fin (((1 + r) ^ n - 1) * 100))
   \<and> (0 < p \<and> 0 < q \<longrightarrow>
        growth_percent exact (Fin p) (Fin r) n = growth_percent exact (Fin q) (Fin r) n
        \<and> projections exact (Fin p) = projections exact (Fin q))
   \<and> (0 < p \<longrightarrow>
        projections exact (Fin p)
        = [(1, [(''Conservative'', Fin 20), (''Moderate'', Fin 50), (''Aggressive'', Fin 120)]),
           (5, [(''Conservative'', Fin (14883 / 100)), (''Moderate'', Fin (32969 / 50)),
                (''Aggressive'', Fin (505363 / 100))]),
           (10, [(''Conservative'', Fin (51917 / 100)), (''Moderate'', Fin (11333 / 2)),
                 (''Aggressive'', Fin (26549923 / 100))])])
   \<and> scenarios exact = [(''Conservative'', Fin (20 / 100)), (''Moderate'', Fin (50 / 100)),
                         (''Aggressive'', Fin (120 / 100))]
   \<and> map fst (projections rd price) = [1, 5, 10]
   \<and> map (\<lambda>row. map fst (snd row)) (projections rd price)
     = replicate 3 [''Conservative'', ''Moderate'', ''Aggressive'']"
proof -
  have 1: "0 < p \<longrightarrow> growth_percent exact (Fin p) (Fin r) n = Fin (((1 + r) ^ n - 1) * 100)"
    by (simp add: growth_percent_exact_value)
  have 2: "0 < p \<and> 0 < q \<longrightarrow>
        growth_percent exact (Fin p) (Fin r) n = growth_percent exact (Fin q) (Fin r) n
        \<and> projections exact (Fin p) = projections exact (Fin q)"
    by (simp add: growth_percent_exact_value projections_exact_table)
  have 3: "0 < p \<longrightarrow>
        projections exact (Fin p)
        = [(1, [(''Conservative'', Fin 20), (''Moderate'', Fin 50), (''Aggressive'', Fin 120)]),
           (5, [(''Conservative'', Fin (14883 / 100)), (''Moderate'', Fin (32969 / 50)),
                (''Aggressive'', Fin (505363 / 100))]),
           (10, [(''Conservative'', Fin (51917 / 100)), (''Moderate'', Fin (11333 / 2)),
                 (''Aggressive'', Fin (26549923 / 100))])]"
    using projections_exact_table [of p] by simp
  have 4: "scenarios exact = [(''Conservative'', Fin (20 / 100)), (''Moderate'', Fin (50 / 100)),
                         (''Aggressive'', Fin (120 / 100))]"
    by (simp add: scenarios_def exact_def)
  have 5: "map fst (projections rd price) = [1, 5, 10]"
    by (simp add: projections_def)
  have 6: "map (\<lambda>row. map fst (snd row)) (projections rd price)
     = replicate 3 [''Conservative'', ''Moderate'', ''Aggressive'']"
    by (simp add: projections_def scenarios_def numeral_3_eq_3)
  show ?thesis
    by (rule conjI [OF 1 conjI [OF 2 conjI [OF 3 conjI [OF 4 conjI [OF 5 6]]]]])
qed

theorem growth_percent_exact_independent_of_price_witness:
  "(0 :: real) < 100 \<and> (0 :: real) < 3 / 10
   \<and> growth_percent exact (Fin 100) (Fin (1 / 5)) 1 = Fin 20
   \<and> growth_percent exact (Fin 100) (Fin (1 / 2)) 5
     = growth_percent exact (Fin (3 / 10)) (Fin (1 / 2)) 5
   \<and> projections exact (Fin 100) = projections exact (Fin (3 / 10))"
proof -
  have h1: "(0 :: real) < 100" and h2: "(0 :: real) < 3 / 10"
    by simp_all
  note t = growth_percent_exact_independent_of_price
  have "growth_percent exact (Fin 100) (Fin (1 / 5)) 1 = Fin (((1 + 1 / 5) ^ 1 - 1) * 100)"
    by (rule t [of 100 "1 / 5" 1, THEN conjunct1, rule_format, OF h1])
  then have r1: "growth_percent exact (Fin 100) (Fin (1 / 5)) 1 = Fin 20"
    by simp
  note r2 = t [of 100 "1 / 2" 5 "3 / 10", THEN conjunct2, THEN conjunct1, rule_format,
      OF conjI [OF h1 h2]]
  show ?thesis
    by (rule conjI [OF h1 conjI [OF h2 conjI [OF r1 r2]]])
qed

end
